theory Spec2Isabelle
  imports Main "HOL-Library.Word"
begin

section \<open>JavaScript strings\<close>

text \<open>
  A JavaScript string is a sequence of UTF-16 code units and \<open>.length\<close> counts code
  units, so a string is a list of 16-bit words. Every literal of \<open>App.tsx\<close> is ASCII;
  \<open>lit\<close> embeds such a literal.
\<close>

type_synonym jsstring = "16 word list"

definition lit :: "string \<Rightarrow> jsstring" where
  "lit cs = map (\<lambda>c. of_nat (of_char c)) cs"

text \<open>The line feed written \<open>\n\<close> in the source's template literals.\<close>

definition nl :: jsstring where
  "nl = [0x0A]"

text \<open>
  \<open>String.prototype.trim\<close> removes the WhiteSpace and LineTerminator code points of
  ECMAScript from both ends: TAB, LF, VT, FF, CR, SP, NBSP, U+1680, U+2000 to U+200A,
  U+2028, U+2029, U+202F, U+205F, U+3000 and U+FEFF. All of them are single code units.
\<close>

definition isWhiteSpace :: "16 word \<Rightarrow> bool" where
  "isWhiteSpace c \<longleftrightarrow>
     c = 0x09 \<or> c = 0x0A \<or> c = 0x0B \<or> c = 0x0C \<or> c = 0x0D \<or> c = 0x20 \<or> c = 0xA0 \<or>
     c = 0x1680 \<or> (0x2000 \<le> c \<and> c \<le> 0x200A) \<or> c = 0x2028 \<or> c = 0x2029 \<or>
     c = 0x202F \<or> c = 0x205F \<or> c = 0x3000 \<or> c = 0xFEFF"

definition trim :: "jsstring \<Rightarrow> jsstring" where
  "trim s = rev (dropWhile isWhiteSpace (rev (dropWhile isWhiteSpace s)))"

text \<open>A string is falsy exactly when it is empty (\<open>!transcription\<close>, \<open>pair.answer || ...\<close>).\<close>

definition truthy :: "jsstring \<Rightarrow> bool" where
  "truthy s \<longleftrightarrow> s \<noteq> []"

text \<open>
  The decimal rendering of a non-negative integer, as a template literal renders
  \<open>index + 1\<close> (an array index is below \<open>2 ^ 32\<close>, far from where JavaScript switches to
  exponent notation).
\<close>

definition digit :: "nat \<Rightarrow> 16 word" where
  "digit d = of_nat (48 + d)"

function numberToString :: "nat \<Rightarrow> jsstring" where
  "numberToString n =
     (if n < 10 then [digit n] else numberToString (n div 10) @ [digit (n mod 10)])"
  by pat_completeness auto
termination
  by (relation "measure (\<lambda>n. n)") auto

declare numberToString.simps [simp del]

section \<open>Data model (\<open>types.ts\<close> and the component state of \<open>App.tsx\<close>)\<close>

datatype AppState =
    IDLE
  | REQUESTING_PERMISSION
  | RECORDING_STORY
  | PROCESSING_STORY
  | PRESENTING_QUESTION
  | RECORDING_ANSWER
  | PROCESSING_ANSWER
  | SUMMARY
  | ERROR

record QnAPair =
  question :: jsstring
  answer :: jsstring

text \<open>
  The \<open>useState\<close> cells of \<open>App\<close>, the timer reference \<open>recordingTimeoutRef\<close>
  (\<open>True\<close> when a 60-second timer is armed, \<open>False\<close> for \<open>null\<close>), and the number of
  pending one-shot timers armed by the copy and share handlers (\<open>setTimeout\<close> calls that
  nothing cancels). \<open>currentQuestionIndex\<close> is a JavaScript number that only ever holds
  integers; it is an \<open>int\<close> here so that its lower bound is a statement, not a type.
\<close>

record session =
  appState :: AppState
  error :: "jsstring option"
  storyText :: jsstring
  qnaPairs :: "QnAPair list"
  currentQuestionIndex :: int
  copied :: bool
  recordingTimeoutRef :: bool
  pendingCopiedResets :: nat
  pendingErrorResets :: nat

definition initialSession :: session where
  "initialSession =
     \<lparr>appState = IDLE, error = None, storyText = [], qnaPairs = [],
      currentQuestionIndex = 0, copied = False, recordingTimeoutRef = False,
      pendingCopiedResets = 0, pendingErrorResets = 0\<rparr>"

section \<open>Collaborators\<close>

text \<open>
  \<open>useAudioRecorder\<close>, \<open>geminiService\<close>, the clipboard and the share API are outside the
  component. A handler sees them through what they answer during that one call:
  \<^item> \<open>isRecording\<close>: the flag of the recorder hook that the handler's closure holds;
  \<^item> \<open>startRecording\<close>: \<open>Inr ()\<close> when the promise resolves, \<open>Inl msg\<close> when it rejects
    with an error of message \<open>msg\<close>;
  \<^item> \<open>stopRecording\<close>: the captured audio, or \<open>None\<close> for \<open>null\<close>;
  \<^item> \<open>transcribeAudio\<close>, \<open>generateComprehensionQuestions\<close>: \<open>Inr\<close> the resolved value,
    \<open>Inl msg\<close> a rejection;
  \<^item> \<open>clipboardWriteText\<close>: whether \<open>navigator.clipboard.writeText\<close> resolves;
  \<^item> \<open>navigatorShare\<close>: \<open>None\<close> when \<open>navigator.share\<close> is absent, otherwise whether
    the share promise resolves.
\<close>

type_synonym blob = "8 word list"

record collaborators =
  isRecording :: bool
  startRecording :: "jsstring + unit"
  stopRecording :: "blob option"
  transcribeAudio :: "blob \<Rightarrow> jsstring + jsstring"
  generateComprehensionQuestions :: "jsstring \<Rightarrow> jsstring + jsstring list"
  clipboardWriteText :: bool
  navigatorShare :: "bool option"

text \<open>The calls a handler makes to its collaborators, in the order it makes them.\<close>

datatype request =
    StartRecording
  | StopRecording
  | TranscribeAudio blob
  | GenerateComprehensionQuestions jsstring
  | ClipboardWriteText jsstring
  | NavigatorShare jsstring

text \<open>
  The only error no handler catches: the state updater of \<open>handleStopAnswerRecording\<close>
  assigns to \<open>newPairs[currentQuestionIndex].answer\<close>, which throws a TypeError when the
  index is outside the array.
\<close>

datatype js_error = TypeError

section \<open>The handlers of \<open>App.tsx\<close>\<close>

text \<open>
  Each function of this section is one call of a handler that nothing interrupts: the
  state after its last \<open>set...\<close> call on the answers its collaborators give, paired
  with the requests it made. The section on calls in flight cuts the same handlers at
  their \<open>await\<close>s.
\<close>

definition cleanupTimeout :: "session \<Rightarrow> session" where
  "cleanupTimeout s = (if recordingTimeoutRef s then s\<lparr>recordingTimeoutRef := False\<rparr> else s)"

definition handleReset :: "session \<Rightarrow> session" where
  "handleReset s =
     (cleanupTimeout s)\<lparr>appState := IDLE, error := None, storyText := [], qnaPairs := [],
                        currentQuestionIndex := 0, copied := False\<rparr>"

fun appendPairs :: "QnAPair list \<Rightarrow> nat \<Rightarrow> jsstring \<Rightarrow> jsstring" where
  "appendPairs [] index text = text"
| "appendPairs (pair # rest) index text =
     appendPairs rest (index + 1)
       ((text @ (lit ''Question '' @ numberToString (index + 1) @ lit '': '' @ question pair @ nl))
         @ (lit ''Answer: ''
            @ (if truthy (answer pair) then answer pair else lit ''No answer recorded.'')
            @ nl @ nl))"

definition getShareableText :: "session \<Rightarrow> jsstring" where
  "getShareableText s =
     appendPairs (qnaPairs s) 0
       ((((lit ''Reading Practice Session!'' @ nl @ nl)
          @ (lit ''--- STORY ---'' @ nl))
         @ (storyText s @ nl @ nl))
        @ (lit ''--- QUESTIONS & ANSWERS ---'' @ nl @ nl))"

definition handleCopyToClipboard :: "collaborators \<Rightarrow> session \<Rightarrow> request list \<times> session" where
  "handleCopyToClipboard c s =
     ([ClipboardWriteText (getShareableText s)],
      if clipboardWriteText c
      then s\<lparr>copied := True, pendingCopiedResets := pendingCopiedResets s + 1\<rparr>
      else s)"

definition handleShare :: "collaborators \<Rightarrow> session \<Rightarrow> request list \<times> session" where
  "handleShare c s =
     (case navigatorShare c of
        None \<Rightarrow> handleCopyToClipboard c s
      | Some True \<Rightarrow> ([NavigatorShare (getShareableText s)], s)
      | Some False \<Rightarrow>
          ([NavigatorShare (getShareableText s)],
           s\<lparr>error := Some (lit ''Sharing was cancelled.''),
             pendingErrorResets := pendingErrorResets s + 1\<rparr>))"

definition handleStartStoryRecording :: "collaborators \<Rightarrow> session \<Rightarrow> request list \<times> session" where
  "handleStartStoryRecording c s =
     (let s1 = s\<lparr>error := None, appState := REQUESTING_PERMISSION\<rparr> in
      case startRecording c of
        Inr _ \<Rightarrow> ([StartRecording], s1\<lparr>appState := RECORDING_STORY, recordingTimeoutRef := True\<rparr>)
      | Inl msg \<Rightarrow> ([StartRecording], s1\<lparr>error := Some msg, appState := ERROR\<rparr>))"

definition tooShortMessage :: jsstring where
  "tooShortMessage = lit ''The recording was too short or unclear. Let's try reading again!''"

definition noQuestionsMessage :: jsstring where
  "noQuestionsMessage =
     lit ''I couldn't think of any questions for that story. Let's try another one!''"

definition handleStopStoryRecording :: "collaborators \<Rightarrow> session \<Rightarrow> request list \<times> session" where
  "handleStopStoryRecording c s =
     (let s0 = cleanupTimeout s in
      if \<not> isRecording c then ([], s0)
      else
        case stopRecording c of
          None \<Rightarrow> ([StopRecording], handleReset s0)
        | Some audioBlob \<Rightarrow>
            (let s1 = s0\<lparr>appState := PROCESSING_STORY\<rparr> in
             case transcribeAudio c audioBlob of
               Inl msg \<Rightarrow>
                 ([StopRecording, TranscribeAudio audioBlob],
                  s1\<lparr>error := Some msg, appState := ERROR\<rparr>)
             | Inr transcription \<Rightarrow>
                 (let s2 = s1\<lparr>storyText := transcription\<rparr> in
                  if \<not> truthy transcription \<or> length (trim transcription) < 10
                  then ([StopRecording, TranscribeAudio audioBlob],
                        s2\<lparr>error := Some tooShortMessage, appState := ERROR\<rparr>)
                  else
                    case generateComprehensionQuestions c transcription of
                      Inl msg \<Rightarrow>
                        ([StopRecording, TranscribeAudio audioBlob,
                          GenerateComprehensionQuestions transcription],
                         s2\<lparr>error := Some msg, appState := ERROR\<rparr>)
                    | Inr questions \<Rightarrow>
                        if length questions > 0
                        then ([StopRecording, TranscribeAudio audioBlob,
                               GenerateComprehensionQuestions transcription],
                              s2\<lparr>qnaPairs := map (\<lambda>q. \<lparr>question = q, answer = []\<rparr>) questions,
                                 appState := PRESENTING_QUESTION\<rparr>)
                        else ([StopRecording, TranscribeAudio audioBlob,
                               GenerateComprehensionQuestions transcription],
                              s2\<lparr>error := Some noQuestionsMessage, appState := ERROR\<rparr>))))"

definition handleStartAnswerRecording :: "collaborators \<Rightarrow> session \<Rightarrow> request list \<times> session" where
  "handleStartAnswerRecording c s =
     (let s1 = s\<lparr>error := None, appState := REQUESTING_PERMISSION\<rparr> in
      case startRecording c of
        Inr _ \<Rightarrow> ([StartRecording], s1\<lparr>appState := RECORDING_ANSWER\<rparr>)
      | Inl msg \<Rightarrow> ([StartRecording], s1\<lparr>error := Some msg, appState := ERROR\<rparr>))"

text \<open>
  The updater \<open>prev => { newPairs = [...prev]; newPairs[i].answer = answerText; ... }\<close>:
  inside the array it replaces the answer of entry \<open>i\<close>; outside, \<open>newPairs[i]\<close> is
  \<open>undefined\<close> and the assignment throws.
\<close>

definition setAnswer :: "QnAPair list \<Rightarrow> int \<Rightarrow> jsstring \<Rightarrow> js_error + QnAPair list" where
  "setAnswer prev i answerText =
     (if 0 \<le> i \<and> i < int (length prev)
      then Inr (prev[nat i := (prev ! nat i)\<lparr>answer := answerText\<rparr>])
      else Inl TypeError)"

definition handleStopAnswerRecording ::
  "collaborators \<Rightarrow> session \<Rightarrow> request list \<times> (js_error + session)" where
  "handleStopAnswerRecording c s =
     (if \<not> isRecording c then ([], Inr s)
      else
        case stopRecording c of
          None \<Rightarrow> ([StopRecording], Inr s)
        | Some audioBlob \<Rightarrow>
            (let s1 = s\<lparr>appState := PROCESSING_ANSWER\<rparr> in
             case transcribeAudio c audioBlob of
               Inl msg \<Rightarrow>
                 ([StopRecording, TranscribeAudio audioBlob],
                  Inr (s1\<lparr>error := Some msg, appState := ERROR\<rparr>))
             | Inr answerText \<Rightarrow>
                 ([StopRecording, TranscribeAudio audioBlob],
                  case setAnswer (qnaPairs s1) (currentQuestionIndex s) answerText of
                    Inl e \<Rightarrow> Inl e
                  | Inr newPairs \<Rightarrow>
                      (let s2 = s1\<lparr>qnaPairs := newPairs\<rparr> in
                       if currentQuestionIndex s < int (length (qnaPairs s)) - 1
                       then Inr (s2\<lparr>currentQuestionIndex := currentQuestionIndex s2 + 1,
                                   appState := PRESENTING_QUESTION\<rparr>)
                       else Inr (s2\<lparr>appState := SUMMARY\<rparr>)))))"

section \<open>Intents\<close>

text \<open>
  The user intents are the buttons that \<open>renderContent\<close> shows in each state; the
  other intents are the timers the handlers arm. The 60-second timer calls the
  \<open>handleStopStoryRecording\<close> that the closure of \<open>handleStartStoryRecording\<close> holds, so
  the \<open>isRecording\<close> it reads is whatever that closure captured: its collaborators are
  an input of the event like those of every other one.
\<close>

datatype intent =
    StartStory
  | StopStory
  | RecordingTimeout
  | StartAnswer
  | StopAnswer
  | Reset
  | Copy
  | Share
  | CopiedTimeout
  | ErrorTimeout

text \<open>
  \<open>renderContent\<close>: "Start Reading" in \<open>IDLE\<close>, "Stop Reading" in \<open>RECORDING_STORY\<close>,
  "Answer Question" in \<open>PRESENTING_QUESTION\<close>, "I'm Done Answering" in
  \<open>RECORDING_ANSWER\<close>, "Start Over" in \<open>SUMMARY\<close> and "Try Again" in \<open>ERROR\<close>,
  "Share Results" in \<open>SUMMARY\<close> when \<open>navigator.share\<close> exists, "Copy Results" in
  \<open>SUMMARY\<close> unless \<open>copied\<close> disables it. A timer fires only while it is armed.
\<close>

fun enabled :: "collaborators \<Rightarrow> intent \<Rightarrow> session \<Rightarrow> bool" where
  "enabled c StartStory s = (appState s = IDLE)"
| "enabled c StopStory s = (appState s = RECORDING_STORY)"
| "enabled c RecordingTimeout s = recordingTimeoutRef s"
| "enabled c StartAnswer s = (appState s = PRESENTING_QUESTION)"
| "enabled c StopAnswer s = (appState s = RECORDING_ANSWER)"
| "enabled c Reset s = (appState s = SUMMARY \<or> appState s = ERROR)"
| "enabled c Copy s = (appState s = SUMMARY \<and> \<not> copied s)"
| "enabled c Share s = (appState s = SUMMARY \<and> navigatorShare c \<noteq> None)"
| "enabled c CopiedTimeout s = (0 < pendingCopiedResets s)"
| "enabled c ErrorTimeout s = (0 < pendingErrorResets s)"

section \<open>Calls in flight\<close>

text \<open>
  Every handler but \<open>handleReset\<close> is \<open>async\<close>: it runs up to its first \<open>await\<close>,
  and each later part runs when the awaited promise settles. Between two parts the
  component renders and takes further events, so several calls can be in flight at
  once. A continuation is a call suspended at an \<open>await\<close>, holding what its closure
  captured: \<open>handleStopAnswerRecording\<close> reads the \<open>currentQuestionIndex\<close> and the
  \<open>qnaPairs.length\<close> of the render that created it, every other read goes through a
  state updater or the timer reference and sees the state of the moment.
\<close>

datatype continuation =
    AwaitStartStory
  | AwaitStartAnswer
  | AwaitStopStory
  | AwaitStoryTranscription
  | AwaitQuestions
  | AwaitStopAnswer int nat
  | AwaitAnswerTranscription int nat
  | AwaitClipboard
  | AwaitShare

text \<open>
  How an awaited promise settles: \<open>startRecording\<close> resolves (\<open>Started\<close>),
  \<open>stopRecording\<close> resolves to audio or \<open>null\<close>, \<open>transcribeAudio\<close> to a text,
  \<open>generateComprehensionQuestions\<close> to a list, the clipboard and the share sheet
  resolve (\<open>Done\<close>), or the promise rejects with an error of some message.
\<close>

datatype response =
    Started
  | Audio "blob option"
  | Transcript jsstring
  | Questions "jsstring list"
  | Done
  | Failed jsstring

text \<open>
  The part of a handler from its entry to its first \<open>await\<close>: the new state and the
  continuation it leaves, if any. \<open>handleShare\<close> awaits the share sheet when
  \<open>navigator.share\<close> exists and calls \<open>handleCopyToClipboard\<close> otherwise.
\<close>

fun invoke :: "collaborators \<Rightarrow> intent \<Rightarrow> session \<Rightarrow> session \<times> continuation list" where
  "invoke c StartStory s =
     (s\<lparr>error := None, appState := REQUESTING_PERMISSION\<rparr>, [AwaitStartStory])"
| "invoke c StopStory s =
     (cleanupTimeout s, if \<not> isRecording c then [] else [AwaitStopStory])"
| "invoke c RecordingTimeout s =
     (cleanupTimeout s, if \<not> isRecording c then [] else [AwaitStopStory])"
| "invoke c StartAnswer s =
     (s\<lparr>error := None, appState := REQUESTING_PERMISSION\<rparr>, [AwaitStartAnswer])"
| "invoke c StopAnswer s =
     (s, if \<not> isRecording c then []
         else [AwaitStopAnswer (currentQuestionIndex s) (length (qnaPairs s))])"
| "invoke c Reset s = (handleReset s, [])"
| "invoke c Copy s = (s, [AwaitClipboard])"
| "invoke c Share s =
     (s, case navigatorShare c of None \<Rightarrow> [AwaitClipboard] | Some _ \<Rightarrow> [AwaitShare])"
| "invoke c CopiedTimeout s =
     (s\<lparr>copied := False, pendingCopiedResets := pendingCopiedResets s - 1\<rparr>, [])"
| "invoke c ErrorTimeout s =
     (s\<lparr>error := None, pendingErrorResets := pendingErrorResets s - 1\<rparr>, [])"

text \<open>
  The part of a handler that runs when its awaited promise settles: the new state and
  the continuation the call leaves next (none when the call has ended). A rejection of
  \<open>stopRecording\<close> or of the clipboard is caught by nothing and ends the call; every
  other rejection is caught and reported. The assignment to
  \<open>newPairs[currentQuestionIndex].answer\<close> uses the index of the closure on the list of
  the moment. A settlement of the wrong kind for the call does not occur; the call
  stays as it is.
\<close>

fun resume :: "continuation \<Rightarrow> response \<Rightarrow> session \<Rightarrow> js_error + session \<times> continuation list" where
  "resume AwaitStartStory Started s =
     Inr (s\<lparr>appState := RECORDING_STORY, recordingTimeoutRef := True\<rparr>, [])"
| "resume AwaitStartStory (Failed msg) s =
     Inr (s\<lparr>error := Some msg, appState := ERROR\<rparr>, [])"
| "resume AwaitStartAnswer Started s =
     Inr (s\<lparr>appState := RECORDING_ANSWER\<rparr>, [])"
| "resume AwaitStartAnswer (Failed msg) s =
     Inr (s\<lparr>error := Some msg, appState := ERROR\<rparr>, [])"
| "resume AwaitStopStory (Audio None) s = Inr (handleReset s, [])"
| "resume AwaitStopStory (Audio (Some audioBlob)) s =
     Inr (s\<lparr>appState := PROCESSING_STORY\<rparr>, [AwaitStoryTranscription])"
| "resume AwaitStopStory (Failed msg) s = Inr (s, [])"
| "resume AwaitStoryTranscription (Transcript transcription) s =
     (let s2 = s\<lparr>storyText := transcription\<rparr> in
      if \<not> truthy transcription \<or> length (trim transcription) < 10
      then Inr (s2\<lparr>error := Some tooShortMessage, appState := ERROR\<rparr>, [])
      else Inr (s2, [AwaitQuestions]))"
| "resume AwaitStoryTranscription (Failed msg) s =
     Inr (s\<lparr>error := Some msg, appState := ERROR\<rparr>, [])"
| "resume AwaitQuestions (Questions questions) s =
     (if length questions > 0
      then Inr (s\<lparr>qnaPairs := map (\<lambda>q. \<lparr>question = q, answer = []\<rparr>) questions,
                  appState := PRESENTING_QUESTION\<rparr>, [])
      else Inr (s\<lparr>error := Some noQuestionsMessage, appState := ERROR\<rparr>, []))"
| "resume AwaitQuestions (Failed msg) s =
     Inr (s\<lparr>error := Some msg, appState := ERROR\<rparr>, [])"
| "resume (AwaitStopAnswer i n) (Audio None) s = Inr (s, [])"
| "resume (AwaitStopAnswer i n) (Audio (Some audioBlob)) s =
     Inr (s\<lparr>appState := PROCESSING_ANSWER\<rparr>, [AwaitAnswerTranscription i n])"
| "resume (AwaitStopAnswer i n) (Failed msg) s = Inr (s, [])"
| "resume (AwaitAnswerTranscription i n) (Transcript answerText) s =
     (case setAnswer (qnaPairs s) i answerText of
        Inl e \<Rightarrow> Inl e
      | Inr newPairs \<Rightarrow>
          (let s2 = s\<lparr>qnaPairs := newPairs\<rparr> in
           if i < int n - 1
           then Inr (s2\<lparr>currentQuestionIndex := currentQuestionIndex s2 + 1,
                       appState := PRESENTING_QUESTION\<rparr>, [])
           else Inr (s2\<lparr>appState := SUMMARY\<rparr>, [])))"
| "resume (AwaitAnswerTranscription i n) (Failed msg) s =
     Inr (s\<lparr>error := Some msg, appState := ERROR\<rparr>, [])"
| "resume AwaitClipboard Done s =
     Inr (s\<lparr>copied := True, pendingCopiedResets := pendingCopiedResets s + 1\<rparr>, [])"
| "resume AwaitClipboard (Failed msg) s = Inr (s, [])"
| "resume AwaitShare Done s = Inr (s, [])"
| "resume AwaitShare (Failed msg) s =
     Inr (s\<lparr>error := Some (lit ''Sharing was cancelled.''),
           pendingErrorResets := pendingErrorResets s + 1\<rparr>, [])"
| "resume k r s = Inr (s, [k])"

text \<open>
  The component with its calls in flight. An event is a button or a timer that the
  current state offers (\<open>Begin\<close>; of the collaborators a beginning call reads only the
  recorder's flag and whether \<open>navigator.share\<close> exists), or the settlement of the
  promise that the call at some position awaits (\<open>Settle\<close>). An event that the state
  does not offer, and a settlement for a position that holds no call, change nothing.
  The model keeps the state the handlers set; what \<open>renderContent\<close> does with it (the
  question views read \<open>qnaPairs[currentQuestionIndex].question\<close>) is outside it.
\<close>

type_synonym world = "session \<times> continuation list"

datatype event =
    Begin collaborators intent
  | Settle nat response

fun dispatch :: "event \<Rightarrow> world \<Rightarrow> js_error + world" where
  "dispatch (Begin c i) (s, ks) =
     (if enabled c i s then Inr (fst (invoke c i s), ks @ snd (invoke c i s)) else Inr (s, ks))"
| "dispatch (Settle k r) (s, ks) =
     (if k < length ks
      then (case resume (ks ! k) r s of
              Inl e \<Rightarrow> Inl e
            | Inr (s', next) \<Rightarrow> Inr (s', take k ks @ next @ drop (Suc k) ks))
      else Inr (s, ks))"

fun exec :: "event list \<Rightarrow> world \<Rightarrow> js_error + world" where
  "exec [] w = Inr w"
| "exec (e # es) w = (case dispatch e w of Inl err \<Rightarrow> Inl err | Inr w' \<Rightarrow> exec es w')"

text \<open>
  The calls to the two stop handlers, and a stop handler that passes its
  \<open>isRecording\<close> guard while such a call is still in flight: the stop button is still
  shown while the earlier call awaits \<open>stopRecording\<close>. A run is \<open>calm\<close> when this
  never happens in it.
\<close>

fun isStop :: "continuation \<Rightarrow> bool" where
  "isStop AwaitStopStory = True"
| "isStop AwaitStoryTranscription = True"
| "isStop AwaitQuestions = True"
| "isStop (AwaitStopAnswer i n) = True"
| "isStop (AwaitAnswerTranscription i n) = True"
| "isStop k = False"

fun overlapping :: "event \<Rightarrow> world \<Rightarrow> bool" where
  "overlapping (Begin c i) (s, ks) =
     ((i = StopStory \<or> i = RecordingTimeout \<or> i = StopAnswer) \<and> enabled c i s
      \<and> isRecording c \<and> list_ex isStop ks)"
| "overlapping (Settle k r) (s, ks) = False"

fun calm :: "event list \<Rightarrow> world \<Rightarrow> bool" where
  "calm [] w = True"
| "calm (e # es) w =
     (\<not> overlapping e w \<and> (case dispatch e w of Inl err \<Rightarrow> True | Inr w' \<Rightarrow> calm es w'))"

text \<open>
  The arrival of a story transcription, and the runs in which none arrives.
\<close>

fun storyArrives :: "event \<Rightarrow> world \<Rightarrow> bool" where
  "storyArrives (Settle k (Transcript t)) (s, ks) =
     (k < length ks \<and> ks ! k = AwaitStoryTranscription)"
| "storyArrives e w = False"

fun untranscribed :: "event list \<Rightarrow> world \<Rightarrow> bool" where
  "untranscribed [] w = True"
| "untranscribed (e # es) w =
     (\<not> storyArrives e w
      \<and> (case dispatch e w of Inl err \<Rightarrow> True | Inr w' \<Rightarrow> untranscribed es w'))"

text \<open>
  The answers of the collaborators to one handler call, in the order the call awaits
  them, and the events of a call that is settled before anything else happens.
\<close>

definition settled :: "jsstring + 'a \<Rightarrow> ('a \<Rightarrow> response) \<Rightarrow> response" where
  "settled p f = (case p of Inl msg \<Rightarrow> Failed msg | Inr v \<Rightarrow> f v)"

definition storyAnswers :: "collaborators \<Rightarrow> response list" where
  "storyAnswers c =
     Audio (stopRecording c) #
     (case stopRecording c of
        None \<Rightarrow> []
      | Some audioBlob \<Rightarrow>
          settled (transcribeAudio c audioBlob) Transcript #
          (case transcribeAudio c audioBlob of
             Inl msg \<Rightarrow> []
           | Inr transcription \<Rightarrow>
               [settled (generateComprehensionQuestions c transcription) Questions]))"

fun answers :: "collaborators \<Rightarrow> intent \<Rightarrow> response list" where
  "answers c StartStory = [settled (startRecording c) (\<lambda>_. Started)]"
| "answers c StartAnswer = [settled (startRecording c) (\<lambda>_. Started)]"
| "answers c StopStory = storyAnswers c"
| "answers c RecordingTimeout = storyAnswers c"
| "answers c StopAnswer =
     Audio (stopRecording c) #
     (case stopRecording c of
        None \<Rightarrow> []
      | Some audioBlob \<Rightarrow> [settled (transcribeAudio c audioBlob) Transcript])"
| "answers c Copy = [if clipboardWriteText c then Done else Failed []]"
| "answers c Share =
     [case navigatorShare c of
        None \<Rightarrow> (if clipboardWriteText c then Done else Failed [])
      | Some shared \<Rightarrow> (if shared then Done else Failed [])]"
| "answers c Reset = []"
| "answers c CopiedTimeout = []"
| "answers c ErrorTimeout = []"

definition unfold :: "collaborators \<times> intent \<Rightarrow> event list" where
  "unfold e = Begin (fst e) (snd e) # map (Settle 0) (answers (fst e) (snd e))"

section \<open>Calls settled at once\<close>

text \<open>
  The schedule in which every call is settled before anything else happens: \<open>step\<close>
  begins a call and delivers the answers of its collaborators one after the other,
  with no other event in between, and \<open>run\<close> takes one such call after the other. On
  this schedule, and only on it, a call is the uninterrupted handler of the section
  above: \<open>fire\<close> names that handler, and \<open>step_atomic\<close> proves the two equal.
\<close>

definition step :: "collaborators \<times> intent \<Rightarrow> session \<Rightarrow> js_error + session" where
  "step e s = map_sum id fst (exec (unfold e) (s, []))"

fun run :: "(collaborators \<times> intent) list \<Rightarrow> session \<Rightarrow> js_error + session" where
  "run [] s = Inr s"
| "run (e # es) s = (case step e s of Inl err \<Rightarrow> Inl err | Inr s' \<Rightarrow> run es s')"

fun fire :: "collaborators \<Rightarrow> intent \<Rightarrow> session \<Rightarrow> request list \<times> (js_error + session)" where
  "fire c StartStory s = map_prod id Inr (handleStartStoryRecording c s)"
| "fire c StopStory s = map_prod id Inr (handleStopStoryRecording c s)"
| "fire c RecordingTimeout s = map_prod id Inr (handleStopStoryRecording c s)"
| "fire c StartAnswer s = map_prod id Inr (handleStartAnswerRecording c s)"
| "fire c StopAnswer s = handleStopAnswerRecording c s"
| "fire c Reset s = ([], Inr (handleReset s))"
| "fire c Copy s = map_prod id Inr (handleCopyToClipboard c s)"
| "fire c Share s = map_prod id Inr (handleShare c s)"
| "fire c CopiedTimeout s =
     ([], Inr (s\<lparr>copied := False, pendingCopiedResets := pendingCopiedResets s - 1\<rparr>))"
| "fire c ErrorTimeout s =
     ([], Inr (s\<lparr>error := None, pendingErrorResets := pendingErrorResets s - 1\<rparr>))"

section \<open>The invariant of the controller\<close>

text \<open>
  What holds whenever no recording or processing call is in flight, as long as the
  stop handlers have not overlapped: the index is inside the question list (0 while
  the list is empty), \<open>IDLE\<close> and \<open>RECORDING_STORY\<close> hold no story and no questions
  yet, the question and summary views have questions, the recording timer is armed
  only while the story is recorded, and no transient state
  (\<open>REQUESTING_PERMISSION\<close>, \<open>PROCESSING_...\<close>) outlives its handler.
\<close>

definition session_inv :: "session \<Rightarrow> bool" where
  "session_inv s \<longleftrightarrow>
     (qnaPairs s = [] \<longrightarrow> currentQuestionIndex s = 0)
     \<and> (qnaPairs s \<noteq> [] \<longrightarrow>
          0 \<le> currentQuestionIndex s \<and> currentQuestionIndex s < int (length (qnaPairs s)))
     \<and> (appState s \<in> {IDLE, RECORDING_STORY} \<longrightarrow> qnaPairs s = [] \<and> storyText s = [])
     \<and> (appState s \<in> {PRESENTING_QUESTION, RECORDING_ANSWER, SUMMARY} \<longrightarrow> qnaPairs s \<noteq> [])
     \<and> appState s \<in> {IDLE, RECORDING_STORY, PRESENTING_QUESTION, RECORDING_ANSWER, SUMMARY, ERROR}
     \<and> (recordingTimeoutRef s \<longrightarrow> appState s = RECORDING_STORY)"

text \<open>
  With calls in flight the state depends on where the one recording or processing call
  stands (the clipboard and the share sheet touch only \<open>copied\<close> and \<open>error\<close>): what
  holds while a call is suspended at each of its \<open>await\<close>s, and the invariant of calm
  runs, that at most one such call is in flight and the state is the one it left.
\<close>

fun isHandler :: "continuation \<Rightarrow> bool" where
  "isHandler AwaitClipboard = False"
| "isHandler AwaitShare = False"
| "isHandler k = True"

fun suspended :: "continuation \<Rightarrow> session \<Rightarrow> bool" where
  "suspended AwaitStartStory s =
     (appState s = REQUESTING_PERMISSION \<and> qnaPairs s = [] \<and> currentQuestionIndex s = 0
      \<and> storyText s = [] \<and> \<not> recordingTimeoutRef s)"
| "suspended AwaitStartAnswer s =
     (appState s = REQUESTING_PERMISSION \<and> qnaPairs s \<noteq> [] \<and> 0 \<le> currentQuestionIndex s
      \<and> currentQuestionIndex s < int (length (qnaPairs s)) \<and> \<not> recordingTimeoutRef s)"
| "suspended AwaitStopStory s =
     (appState s = RECORDING_STORY \<and> qnaPairs s = [] \<and> currentQuestionIndex s = 0
      \<and> storyText s = [] \<and> \<not> recordingTimeoutRef s)"
| "suspended AwaitStoryTranscription s =
     (appState s = PROCESSING_STORY \<and> qnaPairs s = [] \<and> currentQuestionIndex s = 0
      \<and> storyText s = [] \<and> \<not> recordingTimeoutRef s)"
| "suspended AwaitQuestions s =
     (appState s = PROCESSING_STORY \<and> qnaPairs s = [] \<and> currentQuestionIndex s = 0
      \<and> \<not> recordingTimeoutRef s)"
| "suspended (AwaitStopAnswer i n) s =
     (appState s = RECORDING_ANSWER \<and> i = currentQuestionIndex s \<and> n = length (qnaPairs s)
      \<and> 0 \<le> currentQuestionIndex s \<and> currentQuestionIndex s < int (length (qnaPairs s))
      \<and> \<not> recordingTimeoutRef s)"
| "suspended (AwaitAnswerTranscription i n) s =
     (appState s = PROCESSING_ANSWER \<and> i = currentQuestionIndex s \<and> n = length (qnaPairs s)
      \<and> 0 \<le> currentQuestionIndex s \<and> currentQuestionIndex s < int (length (qnaPairs s))
      \<and> \<not> recordingTimeoutRef s)"
| "suspended AwaitClipboard s = False"
| "suspended AwaitShare s = False"

fun fits :: "continuation list \<Rightarrow> session \<Rightarrow> bool" where
  "fits [] s = session_inv s"
| "fits [k] s = suspended k s"
| "fits ks s = False"

definition world_inv :: "world \<Rightarrow> bool" where
  "world_inv w = fits (filter isHandler (snd w)) (fst w)"

section \<open>Scenarios\<close>

text \<open>
  Collaborators that answer one handler call: the recorder's flag, the captured audio,
  the transcription and the generated questions; the recorder starts, the clipboard
  and the share sheet succeed.
\<close>

definition scenario ::
  "bool \<Rightarrow> blob option \<Rightarrow> jsstring + jsstring \<Rightarrow> jsstring + jsstring list \<Rightarrow> collaborators" where
  "scenario recording audio text questions =
     \<lparr>isRecording = recording, startRecording = Inr (), stopRecording = audio,
      transcribeAudio = (\<lambda>_. text), generateComprehensionQuestions = (\<lambda>_. questions),
      clipboardWriteText = True, navigatorShare = Some True\<rparr>"

definition catStory :: jsstring where
  "catStory = lit ''The cat sat on the mat and looked at the bird outside the window.''"

definition catQuestions :: "jsstring list" where
  "catQuestions = [lit ''Where did the cat sit?'', lit ''What did the cat look at?'']"

text \<open>The story is read and its two questions arrive.\<close>

definition storyRead :: "(collaborators \<times> intent) list" where
  "storyRead =
     [(scenario False None (Inr []) (Inr []), StartStory),
      (scenario True (Some [1]) (Inr catStory) (Inr catQuestions), StopStory)]"

text \<open>The state that \<open>storyRead\<close> reaches from the initial one.\<close>

definition storyReadSession :: session where
  "storyReadSession =
     \<lparr>appState = PRESENTING_QUESTION, error = None, storyText = catStory,
      qnaPairs = [\<lparr>question = lit ''Where did the cat sit?'', answer = []\<rparr>,
                  \<lparr>question = lit ''What did the cat look at?'', answer = []\<rparr>],
      currentQuestionIndex = 0, copied = False, recordingTimeoutRef = False,
      pendingCopiedResets = 0, pendingErrorResets = 0\<rparr>"

text \<open>An answer is recorded and transcribed as \<open>text\<close>.\<close>

definition answerGiven :: "jsstring \<Rightarrow> (collaborators \<times> intent) list" where
  "answerGiven text =
     [(scenario False None (Inr []) (Inr []), StartAnswer),
      (scenario True (Some [2]) (Inr text) (Inr []), StopAnswer)]"

text \<open>The state in which the story is being recorded.\<close>

definition storyRecordingSession :: session where
  "storyRecordingSession =
     initialSession\<lparr>appState := RECORDING_STORY, recordingTimeoutRef := True\<rparr>"

text \<open>
  A recording is stopped and transcribed as 18 code units of which 9 remain after
  trimming; the question service would have had questions.
\<close>

definition paddedTranscript :: jsstring where
  "paddedTranscript = lit ''   too short      ''"

definition tooShortScenario :: collaborators where
  "tooShortScenario = scenario True (Some [1]) (Inr paddedTranscript) (Inr catQuestions)"



text \<open>
  The states in which the answer to the first and to the second (the last) question
  of the cat story is being recorded, and an answer that is transcribed as \<open>text\<close>.
\<close>

definition firstAnswerRecording :: session where
  "firstAnswerRecording = storyReadSession\<lparr>appState := RECORDING_ANSWER\<rparr>"


definition answerScenario :: "jsstring \<Rightarrow> collaborators" where
  "answerScenario text = scenario True (Some [2]) (Inr text) (Inr [])"

text \<open>A stop arrives while the recorder reports that it is not recording.\<close>

definition notRecordingScenario :: collaborators where
  "notRecordingScenario = scenario False (Some [1]) (Inr catStory) (Inr catQuestions)"

text \<open>The transcription service returns "ok"; the recorder is active but returns no audio.\<close>

definition okScenario :: collaborators where
  "okScenario = scenario True (Some [1]) (Inr (lit ''ok'')) (Inr catQuestions)"

definition noAudioScenario :: collaborators where
  "noAudioScenario = scenario True None (Inr []) (Inr [])"

text \<open>
  A button is pressed, or the recording timer fires, while the closure of its handler
  holds the recorder's flag \<open>recording\<close>.
\<close>

definition pressed :: "bool \<Rightarrow> collaborators" where
  "pressed recording = scenario recording None (Inr []) (Inr [])"





text \<open>
  "Stop Reading" is pressed twice while the story is recorded. The first call brings
  the two questions of the cat story and the first of them is answered; then the
  second call is answered too, with a single question.
\<close>

definition doubleStopStory :: "event list" where
  "doubleStopStory =
     [Begin (pressed False) StartStory, Settle 0 Started,
      Begin (pressed True) StopStory, Begin (pressed True) StopStory,
      Settle 0 (Audio (Some [1])), Settle 0 (Transcript catStory),
      Settle 0 (Questions catQuestions),
      Begin (pressed False) StartAnswer, Settle 1 Started,
      Begin (pressed True) StopAnswer, Settle 1 (Audio (Some [2])),
      Settle 1 (Transcript (lit ''On the mat.'')),
      Settle 0 (Audio (Some [1])), Settle 0 (Transcript catStory),
      Settle 0 (Questions [lit ''Where did the cat sit?''])]"

definition indexOneOfOne :: session where
  "indexOneOfOne =
     storyReadSession
       \<lparr>qnaPairs := [\<lparr>question = lit ''Where did the cat sit?'', answer = []\<rparr>],
        currentQuestionIndex := 1\<rparr>"

text \<open>
  "Stop Reading" is pressed twice; the recorder returns the audio to the first call
  and \<open>null\<close> to the second, and then the transcription of the first call arrives.
\<close>

definition resetMidFlight :: "event list" where
  "resetMidFlight =
     [Begin (pressed False) StartStory, Settle 0 Started,
      Begin (pressed True) StopStory, Begin (pressed True) StopStory,
      Settle 0 (Audio (Some [1])), Settle 1 (Audio None),
      Settle 0 (Transcript catStory)]"

text \<open>After a reset, "Start Reading" is pressed and the recorder refuses to start.\<close>

definition startRefused :: "event list" where
  "startRefused =
     [Begin (pressed False) StartStory, Settle 0 (Failed (lit ''Permission denied''))]"

text \<open>The story recording is stopped and its transcription awaited.\<close>

definition storyProcessing :: session where
  "storyProcessing = initialSession\<lparr>appState := PROCESSING_STORY\<rparr>"

section \<open>The copy/share text as the specification words it\<close>

text \<open>
  The header \<open>Reading Practice Session!\<close>, a blank line, the \<open>STORY\<close> section holding
  the story text, a blank line, the \<open>QUESTIONS & ANSWERS\<close> section, and after a blank
  line one entry per pair, in order, numbered from 1: \<open>Question k: <question>\<close>, then
  \<open>Answer: <answer>\<close> with \<open>No answer recorded.\<close> in place of an empty answer, then a
  blank line.
\<close>

definition spec_answer :: "QnAPair \<Rightarrow> jsstring" where
  "spec_answer pair = (if answer pair = [] then lit ''No answer recorded.'' else answer pair)"

definition spec_entry :: "nat \<Rightarrow> QnAPair \<Rightarrow> jsstring" where
  "spec_entry k pair =
     lit ''Question '' @ numberToString k @ lit '': '' @ question pair @ nl
     @ lit ''Answer: '' @ spec_answer pair @ nl
     @ nl"

definition spec_shareText :: "jsstring \<Rightarrow> QnAPair list \<Rightarrow> jsstring" where
  "spec_shareText story pairs =
     lit ''Reading Practice Session!'' @ nl
     @ nl
     @ lit ''--- STORY ---'' @ nl
     @ story @ nl
     @ nl
     @ lit ''--- QUESTIONS & ANSWERS ---'' @ nl
     @ nl
     @ concat (map (\<lambda>(k, pair). spec_entry (k + 1) pair) (enumerate 0 pairs))"

text \<open>The summary of the cat story with its first question answered.\<close>

definition catSummary :: session where
  "catSummary =
     storyReadSession
       \<lparr>appState := SUMMARY,
        qnaPairs := [\<lparr>question = lit ''Where did the cat sit?'', answer = lit ''On the mat.''\<rparr>,
                     \<lparr>question = lit ''What did the cat look at?'', answer = []\<rparr>],
        currentQuestionIndex := 1\<rparr>"

section \<open>Preservation of the invariant\<close>

lemma exec_settle_idle: "exec (map (Settle k) rs) (s, []) = Inr (s, [])"
  by (induction rs) simp_all

lemma step_atomic:
  "step e s = (if enabled (fst e) (snd e) s then snd (fire (fst e) (snd e) s) else Inr s)"
proof (cases e)
  case (Pair c i)
  show ?thesis
  proof (cases "enabled c i s")
    case False
    then show ?thesis using Pair by (simp add: step_def unfold_def exec_settle_idle)
  next
    case True
    show ?thesis using Pair True
      by (cases i)
        (auto simp: step_def unfold_def settled_def storyAnswers_def
          handleStartStoryRecording_def handleStopStoryRecording_def
          handleStartAnswerRecording_def handleStopAnswerRecording_def
          handleCopyToClipboard_def handleShare_def Let_def
          split: sum.splits option.splits bool.splits)
  qed
qed

lemma session_inv_initial: "session_inv initialSession"
  by (simp add: session_inv_def initialSession_def)










lemma run_append: "run (es @ fs) s = (case run es s of Inl err \<Rightarrow> Inl err | Inr s' \<Rightarrow> run fs s')"
  by (induction es arbitrary: s) (auto split: sum.splits)

section \<open>Preservation of the invariant with calls in flight\<close>

lemma fits_core:
  assumes "appState s' = appState s" "storyText s' = storyText s" "qnaPairs s' = qnaPairs s"
    "currentQuestionIndex s' = currentQuestionIndex s"
    "recordingTimeoutRef s' = recordingTimeoutRef s"
  shows "fits hs s' = fits hs s"
proof (cases hs)
  case Nil
  with assms show ?thesis by (simp add: session_inv_def)
next
  case (Cons h rest)
  show ?thesis
  proof (cases rest)
    case Nil
    with Cons assms show ?thesis by (cases h) simp_all
  next
    case (Cons a list)
    with \<open>hs = h # rest\<close> show ?thesis by simp
  qed
qed

lemma invoke_idle:
  assumes "session_inv s" and "enabled c i s"
  shows "fits (filter isHandler (snd (invoke c i s))) (fst (invoke c i s))"
  using assms
  by (cases i)
    (auto simp: session_inv_def cleanupTimeout_def handleReset_def split: option.splits)

lemma invoke_busy:
  assumes "suspended h s" and "enabled c i s"
    and "\<not> ((i = StopStory \<or> i = RecordingTimeout \<or> i = StopAnswer) \<and> isRecording c \<and> isStop h)"
  shows "filter isHandler (snd (invoke c i s)) = [] \<and> suspended h (fst (invoke c i s))"
  using assms
  by (cases h; cases i) (auto simp: cleanupTimeout_def)

lemma fits_copied [simp]:
  "fits hs (s\<lparr>copied := x, pendingCopiedResets := y\<rparr>) = fits hs s"
  by (rule fits_core) simp_all

lemma fits_error [simp]:
  "fits hs (s\<lparr>error := x, pendingErrorResets := y\<rparr>) = fits hs s"
  by (rule fits_core) simp_all

lemma resume_handler:
  assumes "suspended h s"
  shows "\<exists>s' next. resume h r s = Inr (s', next) \<and> fits (filter isHandler next) s'"
  using assms
  by (cases "(h, r, s)" rule: resume.cases)
    (auto simp: session_inv_def handleReset_def cleanupTimeout_def setAnswer_def Let_def)

lemma resume_other:
  assumes "\<not> isHandler h"
  shows "\<exists>s' next. resume h r s = Inr (s', next) \<and> filter isHandler next = []
     \<and> fits hs s' = fits hs s"
  using assms
  by (cases h; cases r) auto

lemma filter_nth_split:
  assumes "k < length ks"
  shows "filter P ks = filter P (take k ks) @ (if P (ks ! k) then [ks ! k] else [])
           @ filter P (drop (Suc k) ks)"
proof -
  from assms have "ks = take k ks @ ks ! k # drop (Suc k) ks"
    by (rule id_take_nth_drop)
  then have "filter P ks = filter P (take k ks @ ks ! k # drop (Suc k) ks)"
    by simp
  then show ?thesis by simp
qed

lemma fits_length: "fits hs s \<Longrightarrow> length hs \<le> 1"
  by (cases "(hs, s)" rule: fits.cases) simp_all

lemma fits_single:
  assumes "fits (a @ [h] @ b) s"
  shows "a = [] \<and> b = [] \<and> suspended h s"
proof -
  from fits_length [OF assms] have "a = []" "b = []" by simp_all
  with assms show ?thesis by simp
qed

lemma dispatch_inv:
  assumes "world_inv w" and "\<not> overlapping e w"
  shows "\<exists>w'. dispatch e w = Inr w' \<and> world_inv w'"
proof -
  obtain s ks where w: "w = (s, ks)" by (cases w)
  show ?thesis
  proof (cases e)
    case (Begin c i)
    show ?thesis
    proof (cases "enabled c i s")
      case False
      with Begin w assms show ?thesis by simp
    next
      case True
      show ?thesis
      proof (cases "filter isHandler ks")
        case Nil
        with assms(1) w have "session_inv s" by (simp add: world_inv_def)
        from invoke_idle [OF this True] Nil Begin w True show ?thesis
          by (simp add: world_inv_def)
      next
        case (Cons h rest)
        with assms(1) w have rest: "rest = []" and sus: "suspended h s"
          by (cases rest; simp add: world_inv_def)+
        from Cons have "h \<in> set (filter isHandler ks)" by simp
        then have "h \<in> set ks" by simp
        with assms(2) Begin w True
        have "\<not> ((i = StopStory \<or> i = RecordingTimeout \<or> i = StopAnswer) \<and> isRecording c
                  \<and> isStop h)"
          by (auto simp: list_ex_iff)
        from invoke_busy [OF sus True this] Cons rest Begin w True show ?thesis
          by (simp add: world_inv_def)
      qed
    qed
  next
    case (Settle k r)
    show ?thesis
    proof (cases "k < length ks")
      case False
      with Settle w assms show ?thesis by simp
    next
      case True
      note split = filter_nth_split [OF True, of isHandler]
      show ?thesis
      proof (cases "isHandler (ks ! k)")
        case h: True
        with split assms(1) w
        have "fits (filter isHandler (take k ks) @ [ks ! k] @ filter isHandler (drop (Suc k) ks)) s"
          by (simp add: world_inv_def)
        then have e: "filter isHandler (take k ks) = []" "filter isHandler (drop (Suc k) ks) = []"
          and sus: "suspended (ks ! k) s"
          using fits_single by blast+
        from resume_handler [OF sus, of r] obtain s' nxt where
          "resume (ks ! k) r s = Inr (s', nxt)" "fits (filter isHandler nxt) s'"
          by blast
        with e Settle w True show ?thesis
          by (simp add: world_inv_def)
      next
        case h: False
        from resume_other [OF h, of r s "filter isHandler ks"] obtain s' nxt where
          "resume (ks ! k) r s = Inr (s', nxt)" "filter isHandler nxt = []"
          "fits (filter isHandler ks) s' = fits (filter isHandler ks) s"
          by blast
        with split h assms(1) Settle w True show ?thesis
          by (simp add: world_inv_def)
      qed
    qed
  qed
qed

lemma exec_inv:
  "world_inv w \<Longrightarrow> calm es w \<Longrightarrow> \<exists>w'. exec es w = Inr w' \<and> world_inv w'"
proof (induction es arbitrary: w)
  case Nil
  then show ?case by simp
next
  case (Cons e es)
  from Cons.prems have "\<not> overlapping e w" by simp
  with Cons.prems(1) obtain w1 where w1: "dispatch e w = Inr w1" "world_inv w1"
    using dispatch_inv by blast
  with Cons.prems(2) have "calm es w1" by simp
  from Cons.IH [OF w1(2) this] w1(1) show ?case by simp
qed

lemma world_inv_initial: "world_inv (initialSession, [])"
  by (simp add: world_inv_def session_inv_initial)


lemma exec_append:
  "exec (es @ fs) w = (case exec es w of Inl err \<Rightarrow> Inl err | Inr w' \<Rightarrow> exec fs w')"
  by (induction es arbitrary: w) (auto split: sum.splits)

lemma calm_append:
  "calm (es @ fs) w = (calm es w \<and> (case exec es w of Inl err \<Rightarrow> True | Inr w' \<Rightarrow> calm fs w'))"
  by (induction es arbitrary: w) (auto split: sum.splits)

lemma world_inv_storyText:
  assumes "world_inv (s, ks)" and "appState s = IDLE \<or> appState s = RECORDING_STORY"
  shows "storyText s = []"
proof (cases "filter isHandler ks")
  case Nil
  with assms show ?thesis by (auto simp: world_inv_def session_inv_def)
next
  case (Cons h rest)
  with assms(1) have "rest = []" "suspended h s"
    by (cases rest; simp add: world_inv_def)+
  with assms(2) show ?thesis by (cases h) auto
qed

lemma dispatch_storyText_empty:
  assumes "\<not> storyArrives e (s, ks)" and "storyText s = []"
    and "dispatch e (s, ks) = Inr (s', ks')"
  shows "storyText s' = []"
proof (cases e)
  case (Begin c i)
  with assms show ?thesis
    by (cases i) (auto simp: handleReset_def cleanupTimeout_def split: if_splits)
next
  case (Settle k r)
  show ?thesis
  proof (cases "k < length ks")
    case False
    with Settle assms show ?thesis by simp
  next
    case True
    with Settle assms show ?thesis
      by (cases "(ks ! k, r, s)" rule: resume.cases)
        (auto simp: handleReset_def cleanupTimeout_def Let_def split: if_splits sum.splits)
  qed
qed

lemma exec_storyText_empty:
  "untranscribed es w \<Longrightarrow> storyText (fst w) = [] \<Longrightarrow> exec es w = Inr w'
     \<Longrightarrow> storyText (fst w') = []"
proof (induction es arbitrary: w)
  case Nil
  then show ?case by simp
next
  case (Cons e es)
  from Cons.prems(3) obtain w1 where w1: "dispatch e w = Inr w1" "exec es w1 = Inr w'"
    by (auto split: sum.splits)
  from Cons.prems(1) w1(1) have q: "\<not> storyArrives e w" "untranscribed es w1"
    by simp_all
  from dispatch_storyText_empty [of e "fst w" "snd w" "fst w1" "snd w1"] q(1) Cons.prems(2) w1(1)
  have "storyText (fst w1) = []" by simp
  from Cons.IH [OF q(2) this w1(2)] show ?case .
qed

section \<open>Calls settled at once are calm runs\<close>

text \<open>
  A call that is settled at once is a run of the component with calls in flight that
  ends with no call in flight, and so is every \<open>run\<close>; no stop handler overlaps
  another in it.
\<close>

lemma exec_unfold:
  "exec (unfold e) (s, []) = map_sum id (\<lambda>s'. (s', [])) (step e s)"
proof (cases e)
  case (Pair c i)
  show ?thesis
  proof (cases "enabled c i s")
    case False
    then show ?thesis using Pair by (simp add: step_atomic unfold_def exec_settle_idle)
  next
    case True
    show ?thesis using Pair True
      by (cases i)
        (auto simp: step_atomic unfold_def settled_def storyAnswers_def
          handleStartStoryRecording_def handleStopStoryRecording_def
          handleStartAnswerRecording_def handleStopAnswerRecording_def
          handleCopyToClipboard_def handleShare_def Let_def
          split: sum.splits option.splits bool.splits)
  qed
qed

lemma calm_settles: "calm (map (Settle k) rs) w"
proof (induction rs arbitrary: w)
  case Nil
  then show ?case by simp
next
  case (Cons r rs)
  obtain s ks where "w = (s, ks)" by (cases w)
  with Cons show ?case by (auto split: sum.splits)
qed

lemma calm_unfold: "calm (unfold e) (s, [])"
  by (auto simp: unfold_def calm_settles split: sum.splits)

lemma run_exec:
  "exec (concat (map unfold es)) (s, []) = map_sum id (\<lambda>s'. (s', [])) (run es s)"
  by (induction es arbitrary: s) (auto simp: exec_append exec_unfold split: sum.splits)

lemma run_calm: "calm (concat (map unfold es)) (s, [])"
proof (induction es arbitrary: s)
  case Nil
  then show ?case by simp
next
  case (Cons e es)
  show ?case
  proof (cases "step e s")
    case (Inl err)
    then show ?thesis by (simp add: calm_append calm_unfold exec_unfold)
  next
    case (Inr s')
    with Cons [of s'] show ?thesis by (simp add: calm_append calm_unfold exec_unfold)
  qed
qed

section \<open>The scenarios, evaluated\<close>

lemmas handler_defs =
  handleStartStoryRecording_def handleStopStoryRecording_def handleStartAnswerRecording_def
  handleStopAnswerRecording_def handleReset_def cleanupTimeout_def setAnswer_def Let_def

lemmas string_defs = truthy_def trim_def lit_def isWhiteSpace_def

lemma run_storyRead: "run storyRead initialSession = Inr storyReadSession"
  apply (simp add: storyRead_def initialSession_def step_atomic scenario_def handler_defs)
  apply (simp add: storyReadSession_def catStory_def catQuestions_def string_defs)
  done

lemma run_answerGiven_first:
  "run (answerGiven text) storyReadSession =
     Inr (storyReadSession
            \<lparr>qnaPairs := [\<lparr>question = lit ''Where did the cat sit?'', answer = text\<rparr>,
                           \<lparr>question = lit ''What did the cat look at?'', answer = []\<rparr>],
             currentQuestionIndex := 1\<rparr>)"
  by (simp add: answerGiven_def storyReadSession_def step_atomic scenario_def handler_defs)

lemma run_startStory:
  "run [(scenario False None (Inr []) (Inr []), StartStory)] initialSession
     = Inr storyRecordingSession"
  by (simp add: initialSession_def step_atomic scenario_def handler_defs storyRecordingSession_def)


lemma trim_paddedTranscript: "trim paddedTranscript = lit ''too short''"
  by (simp add: paddedTranscript_def string_defs)


lemma run_startAnswer:
  "run (storyRead @ [(scenario False None (Inr []) (Inr []), StartAnswer)]) initialSession
     = Inr firstAnswerRecording"
  by (simp add: run_append run_storyRead)
    (simp add: storyReadSession_def firstAnswerRecording_def step_atomic scenario_def handler_defs)


lemma map_question_update:
  "i < length xs \<Longrightarrow> map question (xs[i := (xs ! i)\<lparr>answer := a\<rparr>]) = map question xs"
  by (rule nth_equalityI) (simp_all add: nth_list_update)

lemma appendPairs_entries:
  "appendPairs pairs index acc
     = acc @ concat (map (\<lambda>(k, pair). spec_entry (k + 1) pair) (enumerate index pairs))"
  by (induction pairs arbitrary: index acc)
    (simp_all add: spec_entry_def spec_answer_def truthy_def)

lemma numberToString_1: "numberToString (Suc 0) = lit ''1''"
  by (subst numberToString.simps) (simp add: digit_def lit_def)

lemma numberToString_2: "numberToString (Suc (Suc 0)) = lit ''2''"
  by (subst numberToString.simps) (simp add: digit_def lit_def)

lemma getShareableText_catSummary:
  "getShareableText catSummary =
     lit (''Reading Practice Session!\<newline>''
        @ ''\<newline>''
        @ ''--- STORY ---\<newline>''
        @ ''The cat sat on the mat and looked at the bird outside the window.\<newline>''
        @ ''\<newline>''
        @ ''--- QUESTIONS & ANSWERS ---\<newline>''
        @ ''\<newline>''
        @ ''Question 1: Where did the cat sit?\<newline>''
        @ ''Answer: On the mat.\<newline>''
        @ ''\<newline>''
        @ ''Question 2: What did the cat look at?\<newline>''
        @ ''Answer: No answer recorded.\<newline>''
        @ ''\<newline>'')"
  apply (simp add: getShareableText_def catSummary_def storyReadSession_def catStory_def truthy_def numberToString_1 numberToString_2)
  apply (simp add: lit_def nl_def)
  done

lemma step_startStory:
  "step (scenario False None (Inr []) (Inr []), StartStory) initialSession
     = Inr storyRecordingSession"
  using run_startStory by (simp split: sum.splits)

lemma step_startAnswer:
  "step (scenario False None (Inr []) (Inr []), StartAnswer) storyReadSession
     = Inr firstAnswerRecording"
  using run_startAnswer by (simp add: run_append run_storyRead split: sum.splits)

lemma step_okScenario:
  "step (okScenario, StopStory) storyRecordingSession
     = Inr (initialSession\<lparr>appState := ERROR, error := Some tooShortMessage,
                           storyText := lit ''ok''\<rparr>)"
  by (simp add: okScenario_def scenario_def step_atomic handler_defs initialSession_def
      storyRecordingSession_def)
    (simp add: string_defs)

lemma run_okScenario:
  "run [(scenario False None (Inr []) (Inr []), StartStory), (okScenario, StopStory)] initialSession
     = Inr (initialSession\<lparr>appState := ERROR, error := Some tooShortMessage,
                           storyText := lit ''ok''\<rparr>)"
  by (simp add: step_startStory step_okScenario)

lemmas flight_defs = pressed_def scenario_def handleReset_def cleanupTimeout_def setAnswer_def Let_def






text \<open>
  Two overlapping calls of the story's stop handler leave the bound as well: the
  second list of questions replaces the first and the index stays where it was.
\<close>

lemma exec_doubleStopStory:
  "exec doubleStopStory (initialSession, []) = Inr (indexOneOfOne, [])
   \<and> currentQuestionIndex indexOneOfOne = 1 \<and> length (qnaPairs indexOneOfOne) = 1"
  by (simp add: doubleStopStory_def initialSession_def flight_defs)
    (simp add: indexOneOfOne_def storyReadSession_def catStory_def catQuestions_def string_defs)

text \<open>
  When the story's stop handler overlaps itself, a reset can come between the stop and
  the transcription of the other call, and \<open>IDLE\<close> then holds a story text.
\<close>

lemma exec_resetMidFlight:
  "exec resetMidFlight (initialSession, [])
     = Inr (initialSession\<lparr>storyText := catStory\<rparr>, [AwaitQuestions])"
  by (simp add: resetMidFlight_def initialSession_def flight_defs)
    (simp add: catStory_def string_defs)

lemma exec_startRefused:
  "exec startRefused (handleReset catSummary, [])
     = Inr (initialSession\<lparr>appState := ERROR, error := Some (lit ''Permission denied'')\<rparr>, [])"
  by (simp add: startRefused_def catSummary_def storyReadSession_def initialSession_def flight_defs)

lemma untranscribed_startRefused: "untranscribed startRefused (handleReset catSummary, [])"
  by (simp add: startRefused_def catSummary_def storyReadSession_def flight_defs)

lemma exec_storyRecording:
  "exec [Begin (pressed False) StartStory, Settle 0 Started] (initialSession, [])
     = Inr (storyRecordingSession, [])"
  by (simp add: initialSession_def storyRecordingSession_def flight_defs)

lemma calm_storyRecording:
  "calm [Begin (pressed False) StartStory, Settle 0 Started] (initialSession, [])"
  by (simp add: initialSession_def flight_defs)

section \<open>Claims\<close>






text \<open>
  C3. When the story recording is stopped and its transcription has fewer than 10 code
  units after trimming, whatever they are, the controller ends in \<open>ERROR\<close> with the
  too-short message; the only requests it made are the stop and the transcription, so
  no questions were asked for, and \<open>qnaPairs\<close> is as before.
\<close>

theorem story_too_short:
  assumes "isRecording c" and "stopRecording c = Some audioBlob"
    and "transcribeAudio c audioBlob = Inr transcription"
    and "length (trim transcription) < 10"
  shows "appState (snd (handleStopStoryRecording c s)) = ERROR
       \<and> error (snd (handleStopStoryRecording c s)) = Some tooShortMessage
       \<and> fst (handleStopStoryRecording c s) = [StopRecording, TranscribeAudio audioBlob]
       \<and> (\<forall>t. GenerateComprehensionQuestions t \<notin> set (fst (handleStopStoryRecording c s)))
       \<and> qnaPairs (snd (handleStopStoryRecording c s)) = qnaPairs s"
  using assms by (simp add: handleStopStoryRecording_def cleanupTimeout_def Let_def)

theorem story_too_short_witness:
  "isRecording tooShortScenario
   \<and> stopRecording tooShortScenario = Some [1]
   \<and> transcribeAudio tooShortScenario [1] = Inr paddedTranscript
   \<and> length paddedTranscript = 18
   \<and> length (trim paddedTranscript) < 10
   \<and> appState (snd (handleStopStoryRecording tooShortScenario storyRecordingSession)) = ERROR
   \<and> error (snd (handleStopStoryRecording tooShortScenario storyRecordingSession))
       = Some tooShortMessage
   \<and> fst (handleStopStoryRecording tooShortScenario storyRecordingSession)
       = [StopRecording, TranscribeAudio [1]]"
  using story_too_short [of tooShortScenario "[1]" paddedTranscript storyRecordingSession]
  by (simp add: tooShortScenario_def scenario_def trim_paddedTranscript)
    (simp add: lit_def paddedTranscript_def)



text \<open>
  C5, as the code has it. \<open>storyText\<close> is empty until a story transcription arrives:
  from any state with an empty \<open>storyText\<close> (the initial one, and the one after any
  reset), whatever the events and the calls in flight, it stays empty in every state,
  of whatever tag, as long as no story transcription is delivered; and as long as the
  stop handlers do not overlap, every \<open>IDLE\<close> and \<open>RECORDING_STORY\<close> state has an
  empty \<open>storyText\<close>. The handler stores the transcription the moment it arrives,
  before the length check: whenever the transcription call returns, also on the
  too-short path, where the state becomes \<open>ERROR\<close> with the too-short message,
  \<open>storyText\<close> is the transcript it returned.
\<close>

theorem storyText_until_transcribed:
  "(storyText s = [] \<and> untranscribed es (s, ks) \<and> exec es (s, ks) = Inr (s', ks')
      \<longrightarrow> storyText s' = [])
   \<and> (calm fs (initialSession, []) \<and> exec fs (initialSession, []) = Inr (r, js)
       \<and> (appState r = IDLE \<or> appState r = RECORDING_STORY)
      \<longrightarrow> storyText r = [])
   \<and> (k < length ls \<and> ls ! k = AwaitStoryTranscription
      \<longrightarrow> (\<exists>t' ls'. dispatch (Settle k (Transcript transcript)) (t, ls) = Inr (t', ls')
            \<and> storyText t' = transcript
            \<and> (length (trim transcript) < 10 \<longrightarrow>
                  appState t' = ERROR \<and> error t' = Some tooShortMessage)))
   \<and> (isRecording c \<and> stopRecording c = Some audioBlob
       \<and> transcribeAudio c audioBlob = Inr transcription
      \<longrightarrow> storyText (snd (handleStopStoryRecording c u)) = transcription)"
proof (intro conjI impI)
  assume "storyText s = [] \<and> untranscribed es (s, ks) \<and> exec es (s, ks) = Inr (s', ks')"
  then show "storyText s' = []"
    using exec_storyText_empty [of es "(s, ks)" "(s', ks')"] by simp
next
  assume a: "calm fs (initialSession, []) \<and> exec fs (initialSession, []) = Inr (r, js)
       \<and> (appState r = IDLE \<or> appState r = RECORDING_STORY)"
  then have "world_inv (r, js)"
    using exec_inv [OF world_inv_initial, of fs] by auto
  with a show "storyText r = []"
    using world_inv_storyText by blast
next
  assume "k < length ls \<and> ls ! k = AwaitStoryTranscription"
  then show "\<exists>t' ls'. dispatch (Settle k (Transcript transcript)) (t, ls) = Inr (t', ls')
            \<and> storyText t' = transcript
            \<and> (length (trim transcript) < 10 \<longrightarrow>
                  appState t' = ERROR \<and> error t' = Some tooShortMessage)"
    by (simp add: Let_def)
next
  assume "isRecording c \<and> stopRecording c = Some audioBlob
       \<and> transcribeAudio c audioBlob = Inr transcription"
  then show "storyText (snd (handleStopStoryRecording c u)) = transcription"
    by (auto simp: handleStopStoryRecording_def cleanupTimeout_def Let_def split: sum.splits)
qed

theorem storyText_until_transcribed_witness:
  "storyText (handleReset catSummary) = []
   \<and> untranscribed startRefused (handleReset catSummary, [])
   \<and> exec startRefused (handleReset catSummary, [])
       = Inr (initialSession\<lparr>appState := ERROR, error := Some (lit ''Permission denied'')\<rparr>, [])
   \<and> storyText (initialSession\<lparr>appState := ERROR, error := Some (lit ''Permission denied'')\<rparr>)
       = []
   \<and> calm [Begin (pressed False) StartStory, Settle 0 Started] (initialSession, [])
   \<and> exec [Begin (pressed False) StartStory, Settle 0 Started] (initialSession, [])
       = Inr (storyRecordingSession, [])
   \<and> appState storyRecordingSession = RECORDING_STORY
   \<and> storyText storyRecordingSession = []
   \<and> (0::nat) < length [AwaitStoryTranscription]
   \<and> [AwaitStoryTranscription] ! 0 = AwaitStoryTranscription
   \<and> length (trim (lit ''ok'')) < 10
   \<and> dispatch (Settle 0 (Transcript (lit ''ok''))) (storyProcessing, [AwaitStoryTranscription])
       = Inr (storyProcessing\<lparr>storyText := lit ''ok'', error := Some tooShortMessage,
                                appState := ERROR\<rparr>, [])
   \<and> isRecording okScenario \<and> stopRecording okScenario = Some [1]
   \<and> transcribeAudio okScenario [1] = Inr (lit ''ok'')
   \<and> storyText (snd (handleStopStoryRecording okScenario storyRecordingSession)) = lit ''ok''"
proof -
  have e: "storyText (handleReset catSummary) = []"
    by (simp add: handleReset_def)
  have a: "appState storyRecordingSession = RECORDING_STORY"
    by (simp add: storyRecordingSession_def)
  have c: "isRecording okScenario" "stopRecording okScenario = Some [1]"
    "transcribeAudio okScenario [1] = Inr (lit ''ok'')"
    by (simp_all add: okScenario_def scenario_def)
  have l: "length (trim (lit ''ok'')) < 10"
    by (simp add: string_defs)
  have d: "dispatch (Settle 0 (Transcript (lit ''ok''))) (storyProcessing, [AwaitStoryTranscription])
       = Inr (storyProcessing\<lparr>storyText := lit ''ok'', error := Some tooShortMessage,
                                appState := ERROR\<rparr>, [])"
    using l by (simp add: Let_def)
  from storyText_until_transcribed
      [of "handleReset catSummary" startRefused "[]"
        "initialSession\<lparr>appState := ERROR, error := Some (lit ''Permission denied'')\<rparr>" "[]"
        "[Begin (pressed False) StartStory, Settle 0 Started]" storyRecordingSession "[]"
        0 "[AwaitStoryTranscription]" "lit ''ok''" storyProcessing
        okScenario "[1]" "lit ''ok''" storyRecordingSession]
    e untranscribed_startRefused exec_startRefused calm_storyRecording exec_storyRecording a c l d
  show ?thesis by simp
qed

text \<open>
  C5, as stated, fails: the story is recorded, the transcription service returns
  \<open>ok\<close>, the controller ends in \<open>ERROR\<close> with the too-short message, and \<open>storyText\<close>
  is \<open>ok\<close>, not the empty string.
\<close>

theorem storyText_too_short_counterexample:
  "run [(scenario False None (Inr []) (Inr []), StartStory), (okScenario, StopStory)] initialSession
     = Inr (initialSession\<lparr>appState := ERROR, error := Some tooShortMessage,
                           storyText := lit ''ok''\<rparr>)
   \<and> storyText (initialSession\<lparr>appState := ERROR, error := Some tooShortMessage,
                                storyText := lit ''ok''\<rparr>) \<noteq> []"
  by (rule conjI, rule run_okScenario, simp add: lit_def)

text \<open>
  C6, evaluated where the recorder is active and \<open>stopRecording\<close> returns no audio.
  While the story is recorded, the stop discards the session: the state is the initial
  one, \<open>IDLE\<close>. While an answer is recorded, the stop changes nothing: the state is
  still \<open>RECORDING_ANSWER\<close>, with the story and its questions kept.
\<close>

theorem stop_answer_without_audio:
  "handleStopStoryRecording noAudioScenario storyRecordingSession
     = ([StopRecording], initialSession)
   \<and> appState firstAnswerRecording = RECORDING_ANSWER
   \<and> handleStopAnswerRecording noAudioScenario firstAnswerRecording
       = ([StopRecording], Inr firstAnswerRecording)
   \<and> run (storyRead @ [(scenario False None (Inr []) (Inr []), StartAnswer),
                         (noAudioScenario, StopAnswer)]) initialSession
       = Inr firstAnswerRecording"
proof -
  have "step (noAudioScenario, StopAnswer) firstAnswerRecording = Inr firstAnswerRecording"
    by (simp add: step_atomic noAudioScenario_def scenario_def handler_defs firstAnswerRecording_def)
  then have "run (storyRead @ [(scenario False None (Inr []) (Inr []), StartAnswer),
                         (noAudioScenario, StopAnswer)]) initialSession
       = Inr firstAnswerRecording"
    by (simp add: run_append run_storyRead step_startAnswer)
  then show ?thesis
    by (simp add: noAudioScenario_def scenario_def handler_defs storyRecordingSession_def
        initialSession_def firstAnswerRecording_def)
qed

theorem stop_answer_without_audio_witness:
  "appState (snd (handleStopStoryRecording noAudioScenario storyRecordingSession)) = IDLE
   \<and> (\<exists>s. snd (handleStopAnswerRecording noAudioScenario firstAnswerRecording) = Inr s
          \<and> appState s = RECORDING_ANSWER \<and> appState s \<noteq> IDLE
          \<and> storyText s = catStory \<and> length (qnaPairs s) = 2)"
  using stop_answer_without_audio
  by (simp add: initialSession_def) (simp add: firstAnswerRecording_def storyReadSession_def)

text \<open>
  C7. When the recorder reports that it is not recording, stopping the story recording
  makes no request and leaves the state tag, \<open>storyText\<close>, \<open>qnaPairs\<close>,
  \<open>currentQuestionIndex\<close> and \<open>error\<close> as they were, and stopping the answer recording
  makes no request and returns the state it was given.
\<close>

theorem stop_when_not_recording:
  assumes "\<not> isRecording c"
  shows "fst (handleStopStoryRecording c s) = []
       \<and> appState (snd (handleStopStoryRecording c s)) = appState s
       \<and> storyText (snd (handleStopStoryRecording c s)) = storyText s
       \<and> qnaPairs (snd (handleStopStoryRecording c s)) = qnaPairs s
       \<and> currentQuestionIndex (snd (handleStopStoryRecording c s)) = currentQuestionIndex s
       \<and> error (snd (handleStopStoryRecording c s)) = error s
       \<and> handleStopAnswerRecording c s = ([], Inr s)"
  using assms
  by (simp add: handleStopStoryRecording_def handleStopAnswerRecording_def cleanupTimeout_def Let_def)

theorem stop_when_not_recording_witness:
  "\<not> isRecording notRecordingScenario
   \<and> fst (handleStopStoryRecording notRecordingScenario storyRecordingSession) = []
   \<and> appState (snd (handleStopStoryRecording notRecordingScenario storyRecordingSession))
       = RECORDING_STORY
   \<and> storyText (snd (handleStopStoryRecording notRecordingScenario storyRecordingSession)) = []
   \<and> qnaPairs (snd (handleStopStoryRecording notRecordingScenario storyRecordingSession)) = []
   \<and> currentQuestionIndex
       (snd (handleStopStoryRecording notRecordingScenario storyRecordingSession)) = 0
   \<and> error (snd (handleStopStoryRecording notRecordingScenario storyRecordingSession)) = None
   \<and> handleStopAnswerRecording notRecordingScenario firstAnswerRecording
       = ([], Inr firstAnswerRecording)"
proof -
  have n: "\<not> isRecording notRecordingScenario"
    by (simp add: notRecordingScenario_def scenario_def)
  from stop_when_not_recording [OF n, of storyRecordingSession]
    stop_when_not_recording [OF n, of firstAnswerRecording] n
  show ?thesis by (simp add: storyRecordingSession_def initialSession_def)
qed

text \<open>
  C8. Whatever the session state, after \<open>handleReset\<close> the story text is empty, there
  are no question/answer pairs, the index is 0, no error is set and the state is
  \<open>IDLE\<close>.
\<close>

theorem handleReset_clears:
  "storyText (handleReset s) = [] \<and> qnaPairs (handleReset s) = []
   \<and> currentQuestionIndex (handleReset s) = 0 \<and> error (handleReset s) = None
   \<and> appState (handleReset s) = IDLE"
  by (simp add: handleReset_def)

text \<open>
  C9. The text that copy and share send is the header, the \<open>STORY\<close> section with the
  story text and the \<open>QUESTIONS & ANSWERS\<close> section with one \<open>Question k\<close> /
  \<open>Answer\<close> entry per pair, in order, numbered from 1, where an empty answer, and no
  other, reads \<open>No answer recorded.\<close>
\<close>

theorem getShareableText_format:
  "getShareableText s = spec_shareText (storyText s) (qnaPairs s)"
  by (simp add: getShareableText_def spec_shareText_def appendPairs_entries)

theorem getShareableText_format_witness:
  "getShareableText catSummary = spec_shareText catStory (qnaPairs catSummary)
   \<and> spec_shareText catStory (qnaPairs catSummary) =
     lit (''Reading Practice Session!\<newline>''
        @ ''\<newline>''
        @ ''--- STORY ---\<newline>''
        @ ''The cat sat on the mat and looked at the bird outside the window.\<newline>''
        @ ''\<newline>''
        @ ''--- QUESTIONS & ANSWERS ---\<newline>''
        @ ''\<newline>''
        @ ''Question 1: Where did the cat sit?\<newline>''
        @ ''Answer: On the mat.\<newline>''
        @ ''\<newline>''
        @ ''Question 2: What did the cat look at?\<newline>''
        @ ''Answer: No answer recorded.\<newline>''
        @ ''\<newline>'')"
proof -
  have "storyText catSummary = catStory"
    by (simp add: catSummary_def storyReadSession_def)
  with getShareableText_format [of catSummary] getShareableText_catSummary
  show ?thesis by simp
qed

text \<open>
  C10. When the answer recording for question \<open>i\<close> is stopped and transcribed, the
  handler leaves \<open>storyText\<close> and \<open>error\<close> as they were, keeps the number of pairs and
  every question, stores the transcript as the answer of pair \<open>i\<close> and leaves every
  other pair untouched; \<open>copied\<close> and the recording timer do not change either.
\<close>

theorem answer_frame:
  assumes "isRecording c" and "stopRecording c = Some audioBlob"
    and "transcribeAudio c audioBlob = Inr answerText"
    and "0 \<le> currentQuestionIndex s" and "currentQuestionIndex s < int (length (qnaPairs s))"
  shows "\<exists>s'. snd (handleStopAnswerRecording c s) = Inr s'
       \<and> storyText s' = storyText s \<and> error s' = error s
       \<and> length (qnaPairs s') = length (qnaPairs s)
       \<and> map question (qnaPairs s') = map question (qnaPairs s)
       \<and> answer (qnaPairs s' ! nat (currentQuestionIndex s)) = answerText
       \<and> (\<forall>j < length (qnaPairs s). j \<noteq> nat (currentQuestionIndex s) \<longrightarrow>
             qnaPairs s' ! j = qnaPairs s ! j)
       \<and> copied s' = copied s \<and> recordingTimeoutRef s' = recordingTimeoutRef s"
proof -
  from assms(4,5) have i: "nat (currentQuestionIndex s) < length (qnaPairs s)"
    by simp
  from assms i show ?thesis
    by (simp add: handleStopAnswerRecording_def setAnswer_def Let_def map_question_update)
qed

theorem answer_frame_witness:
  "isRecording (answerScenario (lit ''On the mat.''))
   \<and> stopRecording (answerScenario (lit ''On the mat.'')) = Some [2]
   \<and> transcribeAudio (answerScenario (lit ''On the mat.'')) [2] = Inr (lit ''On the mat.'')
   \<and> currentQuestionIndex firstAnswerRecording = 0
   \<and> length (qnaPairs firstAnswerRecording) = 2
   \<and> (\<exists>s'. snd (handleStopAnswerRecording (answerScenario (lit ''On the mat.''))
                  firstAnswerRecording) = Inr s'
          \<and> storyText s' = catStory \<and> error s' = None
          \<and> map question (qnaPairs s') = catQuestions
          \<and> map answer (qnaPairs s') = [lit ''On the mat.'', []])"
proof -
  have c: "isRecording (answerScenario (lit ''On the mat.''))"
    "stopRecording (answerScenario (lit ''On the mat.'')) = Some [2]"
    "transcribeAudio (answerScenario (lit ''On the mat.'')) [2] = Inr (lit ''On the mat.'')"
    by (simp_all add: answerScenario_def scenario_def)
  have f: "0 \<le> currentQuestionIndex firstAnswerRecording"
    "currentQuestionIndex firstAnswerRecording < int (length (qnaPairs firstAnswerRecording))"
    by (simp_all add: firstAnswerRecording_def storyReadSession_def)
  have e: "currentQuestionIndex firstAnswerRecording = 0"
    "qnaPairs firstAnswerRecording
       = [\<lparr>question = lit ''Where did the cat sit?'', answer = []\<rparr>,
          \<lparr>question = lit ''What did the cat look at?'', answer = []\<rparr>]"
    "storyText firstAnswerRecording = catStory" "error firstAnswerRecording = None"
    by (simp_all add: firstAnswerRecording_def storyReadSession_def)
  from answer_frame [OF c f] obtain s' where
    s': "snd (handleStopAnswerRecording (answerScenario (lit ''On the mat.''))
               firstAnswerRecording) = Inr s'"
    and fr: "storyText s' = storyText firstAnswerRecording" "error s' = error firstAnswerRecording"
      "length (qnaPairs s') = length (qnaPairs firstAnswerRecording)"
      "map question (qnaPairs s') = map question (qnaPairs firstAnswerRecording)"
      "answer (qnaPairs s' ! nat (currentQuestionIndex firstAnswerRecording)) = lit ''On the mat.''"
      "\<forall>j < length (qnaPairs firstAnswerRecording).
          j \<noteq> nat (currentQuestionIndex firstAnswerRecording) \<longrightarrow>
          qnaPairs s' ! j = qnaPairs firstAnswerRecording ! j"
    by blast
  from fr(3) e(2) obtain p q where pq: "qnaPairs s' = [p, q]"
    by (cases "qnaPairs s'"; cases "tl (qnaPairs s')") auto
  from fr(5) e(1) pq have p: "answer p = lit ''On the mat.''" by simp
  from fr(6) e(1,2) pq have q: "q = \<lparr>question = lit ''What did the cat look at?'', answer = []\<rparr>"
    by (auto dest: spec [of _ 1])
  from s' fr(1,2,4) e pq p q c show ?thesis
    by (simp add: catQuestions_def)
qed

end
